theory Spec2Isabelle
  imports Main
begin

section \<open>Values of the Python program\<close>

text \<open>
  A Python \<open>str\<close> is a sequence of Unicode code points, and slicing (\<open>s[:n]\<close>) and
  \<open>len\<close> count code points. A text is therefore a list of code points; \<open>lit\<close>
  embeds an ASCII literal of the source, and the non-ASCII characters of the source's
  literals are written as their code points.
\<close>

type_synonym pystr = "nat list"

definition lit :: "string \<Rightarrow> pystr" where
  "lit s = map of_char s"

text \<open>
  Truthiness of a value that is \<open>None\<close> or a \<open>str\<close> (what \<open>os.getenv\<close> returns):
  \<open>None\<close> and the empty text are falsy.
\<close>

definition truthy :: "pystr option \<Rightarrow> bool" where
  "truthy v = (case v of None \<Rightarrow> False | Some s \<Rightarrow> s \<noteq> [])"

text \<open>
  An exception object, an instance of \<open>Exception\<close>: the handlers of the source are
  \<open>except ImportError\<close> and \<open>except Exception\<close>, so the class is recorded as far as
  the first one tells it apart. \<open>str_of e\<close> is \<open>str(e)\<close>.
\<close>

datatype exn = ImportError pystr | OtherException pystr

fun str_of :: "exn \<Rightarrow> pystr" where
  "str_of (ImportError m) = m"
| "str_of (OtherException m) = m"

fun is_ImportError :: "exn \<Rightarrow> bool" where
  "is_ImportError (ImportError m) = True"
| "is_ImportError (OtherException m) = False"

section \<open>The notifier: \<open>send_whatsapp_message\<close>\<close>

text \<open>The module-level settings read from the environment at start-up.\<close>

record config =
  TWILIO_WHATSAPP_ENABLED :: bool
  TWILIO_ACCOUNT_SID :: "pystr option"
  TWILIO_AUTH_TOKEN :: "pystr option"
  TWILIO_WHATSAPP_FROM :: "pystr option"
  OWNER_WHATSAPP_TO :: "pystr option"

text \<open>The arguments of the one call \<open>requests.post(url, data=..., auth=..., timeout=10)\<close>.\<close>

record http_request =
  url :: pystr
  data :: "(string \<times> pystr) list"
  auth :: "pystr \<times> pystr"
  timeout :: nat

text \<open>
  \<open>requests.post\<close> either raises or returns a response, of which the code reads the
  status code only.
\<close>

type_synonym http_client = "http_request \<Rightarrow> exn + int"

definition twilio_request :: "pystr \<Rightarrow> pystr \<Rightarrow> pystr \<Rightarrow> pystr \<Rightarrow> pystr \<Rightarrow> http_request" where
  "twilio_request sid tok frm to body =
     \<lparr>url = lit ''https://api.twilio.com/2010-04-01/Accounts/'' @ sid @ lit ''/Messages.json'',
      data = [(''From'', frm), (''To'', to), (''Body'', body)],
      auth = (sid, tok),
      timeout = 10\<rparr>"

text \<open>
  The body of the \<open>try\<close> block: the POST, then the test of the status code. The result
  is paired with the requests that were sent, in order.
\<close>

definition post_and_check :: "http_client \<Rightarrow> http_request \<Rightarrow> (exn + bool) \<times> http_request list" where
  "post_and_check post req =
     (case post req of
        Inl e \<Rightarrow> (Inl e, [req])
      | Inr status_code \<Rightarrow> (Inr (status_code = 200 \<or> status_code = 201), [req]))"

text \<open>\<open>try: ... except Exception: return False\<close>.\<close>

definition except_return_False ::
  "(exn + bool) \<times> http_request list \<Rightarrow> (exn + bool) \<times> http_request list" where
  "except_return_False r =
     (case r of (Inl e, sent) \<Rightarrow> (Inr False, sent) | (Inr b, sent) \<Rightarrow> (Inr b, sent))"

text \<open>
  After \<open>all(required)\<close> has passed, the four values are texts; the last branch of the
  \<open>case\<close> is there for totality only.
\<close>

definition send_whatsapp_message ::
  "config \<Rightarrow> http_client \<Rightarrow> pystr \<Rightarrow> (exn + bool) \<times> http_request list" where
  "send_whatsapp_message cfg post body =
     (if \<not> TWILIO_WHATSAPP_ENABLED cfg then (Inr False, [])
      else
        let required = [TWILIO_ACCOUNT_SID cfg, TWILIO_AUTH_TOKEN cfg,
                        TWILIO_WHATSAPP_FROM cfg, OWNER_WHATSAPP_TO cfg]
        in if \<not> list_all truthy required then (Inr False, [])
           else (case required of
                   [Some sid, Some tok, Some frm, Some to] \<Rightarrow>
                     except_return_False (post_and_check post (twilio_request sid tok frm to body))
                 | _ \<Rightarrow> (Inr False, [])))"

section \<open>The contact endpoint: \<open>POST /api/contact\<close>\<close>

text \<open>
  The request body is a JSON object. The framework validates it against the declaration
  of \<open>ContactIn\<close> before the handler runs: \<open>name\<close>, \<open>phone\<close> and \<open>message\<close> are
  required and must be JSON strings; \<open>email\<close> is \<open>Optional[str]\<close> with default
  \<open>None\<close>, so it may be missing or \<open>null\<close>. No field has a length constraint. A
  payload that fails validation is answered with status 422 and the handler is not
  called.
\<close>

record ContactIn =
  name :: pystr
  phone :: pystr
  email :: "pystr option"
  message :: pystr

datatype json = JNull | JBool bool | JNum int | JStr pystr

type_synonym json_object = "string \<rightharpoonup> json"

definition required_str :: "json_object \<Rightarrow> string \<Rightarrow> pystr option" where
  "required_str obj k = (case obj k of Some (JStr s) \<Rightarrow> Some s | _ \<Rightarrow> None)"

definition optional_str :: "json_object \<Rightarrow> string \<Rightarrow> pystr option option" where
  "optional_str obj k =
     (case obj k of
        None \<Rightarrow> Some None
      | Some JNull \<Rightarrow> Some None
      | Some (JStr s) \<Rightarrow> Some (Some s)
      | Some _ \<Rightarrow> None)"

definition ContactIn_validate :: "json_object \<Rightarrow> ContactIn option" where
  "ContactIn_validate obj =
     (case (required_str obj ''name'', required_str obj ''phone'',
            optional_str obj ''email'', required_str obj ''message'') of
        (Some n, Some p, Some e, Some m) \<Rightarrow>
          Some \<lparr>ContactIn.name = n, ContactIn.phone = p, ContactIn.email = e, ContactIn.message = m\<rparr>
      | _ \<Rightarrow> None)"

text \<open>
  The class \<open>ContactMessage\<close> is imported from \<open>schemas\<close> and \<open>create_document\<close> from
  \<open>database\<close>; the handler is written against both, so both are parameters here. The
  schema takes the dumped fields of the payload and either raises (its own validation) or
  gives the object; the gateway takes the collection name and the object and either
  raises or gives the identifier of the stored document.
\<close>

record ContactMessage =
  name :: pystr
  phone :: pystr
  email :: "pystr option"
  message :: pystr

type_synonym schema = "ContactIn \<Rightarrow> exn + ContactMessage"

type_synonym gateway = "pystr \<Rightarrow> ContactMessage \<Rightarrow> exn + pystr"

text \<open>
  Modelled from the spec: the declaration of \<open>ContactMessage\<close> in \<open>schemas.py\<close>, which
  is not among the sources; the handler calls it to validate the payload against the
  schema. The spec's data model gives it the four fields of the payload, \<open>name\<close> and
  \<open>phone\<close> non-empty texts without format validation, \<open>email\<close> an optional
  unvalidated text and \<open>message\<close> a text. So this schema raises its validation error
  when the name or the phone is empty, and copies the four fields otherwise.
\<close>

definition ContactMessage_of :: schema where
  "ContactMessage_of p =
     (if ContactIn.name p = [] \<or> ContactIn.phone p = []
      then Inl (OtherException (lit ''ValidationError''))
      else Inr \<lparr>ContactMessage.name = ContactIn.name p, ContactMessage.phone = ContactIn.phone p,
                ContactMessage.email = ContactIn.email p,
                ContactMessage.message = ContactIn.message p\<rparr>)"

text \<open>
  The text of the notification, the f-string of the handler. \<open>msg.email or '-'\<close>
  gives the dash when the email is \<open>None\<close> and when it is the empty text.
\<close>

definition notification_body :: "ContactMessage \<Rightarrow> pystr" where
  "notification_body msg =
     lit ''New Contact Message'' @ [10] @
     lit ''Name: '' @ ContactMessage.name msg @ [10] @
     lit ''Phone: '' @ ContactMessage.phone msg @ [10] @
     lit ''Email: '' @ (if truthy (ContactMessage.email msg)
                        then (case ContactMessage.email msg of Some e \<Rightarrow> e | None \<Rightarrow> lit ''-'')
                        else lit ''-'') @ [10] @
     lit ''Message: '' @ take 500 (ContactMessage.message msg)"

text \<open>
  What the handler does to the outside world, in order: the construction of the schema
  object, the call of the persistence gateway, the call of the notifier, and the HTTP
  POST the notifier issues.
\<close>

datatype event =
    Construct ContactIn
  | CreateDocument pystr ContactMessage
  | SendWhatsapp pystr
  | HttpPost http_request

text \<open>
  What leaves the handler when it does not return: the \<open>HTTPException\<close> it raises
  itself, with status code and detail, or an exception it does not catch.
\<close>

datatype raised = HTTPException int pystr | Uncaught exn

record contact_response =
  ok :: bool
  id_field :: pystr

definition create_contact ::
  "schema \<Rightarrow> gateway \<Rightarrow> config \<Rightarrow> http_client \<Rightarrow> ContactIn
     \<Rightarrow> (raised + contact_response) \<times> event list" where
  "create_contact ContactMessage_new create_document cfg post payload =
     (case ContactMessage_new payload of
        Inl e \<Rightarrow> (Inl (Uncaught e), [Construct payload])
      | Inr msg \<Rightarrow>
          (case create_document (lit ''contactmessage'') msg of
             Inl e \<Rightarrow>
               (Inl (HTTPException 500 (lit ''Database error: '' @ take 120 (str_of e))),
                [Construct payload, CreateDocument (lit ''contactmessage'') msg])
           | Inr doc_id \<Rightarrow>
               let body = notification_body msg;
                   (r, sent) = send_whatsapp_message cfg post body;
                   trace = [Construct payload, CreateDocument (lit ''contactmessage'') msg,
                            SendWhatsapp body] @ map HttpPost sent
               in (case r of
                     Inl e \<Rightarrow> (Inl (Uncaught e), trace)
                   | Inr notified \<Rightarrow> (Inr \<lparr>ok = True, id_field = doc_id\<rparr>, trace))))"

text \<open>
  The endpoint as the client sees it: the status code and what the body carries. An
  \<open>HTTPException\<close> becomes a response with its status code and \<open>{detail: ...}\<close>; an
  uncaught exception becomes the framework's plain 500.
\<close>

datatype reply =
    Success contact_response
  | ValidationRejected
  | Failed int pystr
  | InternalServerError

fun status_code :: "reply \<Rightarrow> int" where
  "status_code (Success r) = 200"
| "status_code ValidationRejected = 422"
| "status_code (Failed c d) = c"
| "status_code InternalServerError = 500"

definition post_api_contact ::
  "schema \<Rightarrow> gateway \<Rightarrow> config \<Rightarrow> http_client \<Rightarrow> json_object \<Rightarrow> reply \<times> event list" where
  "post_api_contact ContactMessage_new create_document cfg post obj =
     (case ContactIn_validate obj of
        None \<Rightarrow> (ValidationRejected, [])
      | Some payload \<Rightarrow>
          (case create_contact ContactMessage_new create_document cfg post payload of
             (Inl (HTTPException c d), evs) \<Rightarrow> (Failed c d, evs)
           | (Inl (Uncaught e), evs) \<Rightarrow> (InternalServerError, evs)
           | (Inr r, evs) \<Rightarrow> (Success r, evs)))"

section \<open>The diagnostics endpoint: \<open>GET /test\<close>\<close>

text \<open>
  The status document. \<open>database_url\<close> and \<open>database_name\<close> start as \<open>None\<close>.
\<close>

record response =
  backend :: pystr
  database :: pystr
  database_url :: "pystr option"
  database_name :: "pystr option"
  connection_status :: pystr
  collections :: "pystr list"

text \<open>
  The database handle \<open>db\<close> as the handler uses it: whether it has an attribute
  \<open>name\<close> (and its value), and what \<open>db.list_collection_names()\<close> does. The import
  \<open>from database import db\<close> raises, or gives \<open>None\<close>, or gives a handle.
\<close>

record db_handle =
  name_attr :: "pystr option"
  list_collection_names :: "exn + pystr list"

type_synonym db_import = "exn + db_handle option"

type_synonym environ = "string \<rightharpoonup> pystr"

definition check_mark :: pystr where
  "check_mark = [9989]"

definition cross_mark :: pystr where
  "cross_mark = [10060]"

definition warning_sign :: pystr where
  "warning_sign = [9888, 65039]"

text \<open>
  The body of the inner \<open>try\<close>: the enumeration raises before the document is
  touched, or the document gets the first ten names.
\<close>

definition enumerate_collections :: "db_handle \<Rightarrow> response \<Rightarrow> exn + response" where
  "enumerate_collections db response =
     (case list_collection_names db of
        Inl e \<Rightarrow> Inl e
      | Inr colls \<Rightarrow>
          Inr (response\<lparr>collections := take 10 colls,
                        database := check_mark @ lit '' Connected & Working''\<rparr>))"

text \<open>The inner \<open>try\<close> with its handler \<open>except Exception as e\<close>.\<close>

definition check_connectivity :: "db_handle \<Rightarrow> response \<Rightarrow> response" where
  "check_connectivity db response =
     (case enumerate_collections db response of
        Inr response' \<Rightarrow> response'
      | Inl e \<Rightarrow>
          response\<lparr>database := warning_sign @ lit ''  Connected but Error: '' @ take 50 (str_of e)\<rparr>)"

text \<open>
  The body of the outer \<open>try\<close>: the import raises before the document is touched, or
  gives \<open>None\<close>, or gives a handle.
\<close>

definition import_and_probe :: "db_import \<Rightarrow> response \<Rightarrow> exn + response" where
  "import_and_probe imp response =
     (case imp of
        Inl e \<Rightarrow> Inl e
      | Inr None \<Rightarrow>
          Inr (response\<lparr>database := warning_sign @ lit ''  Available but not initialized''\<rparr>)
      | Inr (Some db) \<Rightarrow>
          Inr (check_connectivity db
                 (response\<lparr>database := check_mark @ lit '' Available'',
                           database_url := Some (check_mark @ lit '' Configured''),
                           database_name := Some (case name_attr db of
                                                    Some n \<Rightarrow> n
                                                  | None \<Rightarrow> check_mark @ lit '' Connected''),
                           connection_status := lit ''Connected''\<rparr>)))"

text \<open>The outer \<open>try\<close> with its two handlers, \<open>except ImportError\<close> first.\<close>

definition probe_database :: "db_import \<Rightarrow> response \<Rightarrow> response" where
  "probe_database imp response =
     (case import_and_probe imp response of
        Inr response' \<Rightarrow> response'
      | Inl e \<Rightarrow>
          if is_ImportError e
          then response\<lparr>database :=
                 cross_mark @ lit '' Database module not found (run enable-database first)''\<rparr>
          else response\<lparr>database := cross_mark @ lit '' Error: '' @ take 50 (str_of e)\<rparr>)"

text \<open>\<open>"... Set" if os.getenv(...) else "... Not Set"\<close>, on the value \<open>os.getenv\<close> gave.\<close>

definition set_or_not :: "pystr option \<Rightarrow> pystr" where
  "set_or_not v = (if truthy v then check_mark @ lit '' Set'' else cross_mark @ lit '' Not Set'')"

definition test_database :: "db_import \<Rightarrow> environ \<Rightarrow> response" where
  "test_database imp getenv =
     (let response = \<lparr>backend = check_mark @ lit '' Running'',
                      database = cross_mark @ lit '' Not Available'',
                      database_url = None,
                      database_name = None,
                      connection_status = lit ''Not Connected'',
                      collections = []\<rparr>;
          response = probe_database imp response;
          response = response\<lparr>database_url := Some (set_or_not (getenv ''DATABASE_URL''))\<rparr>;
          response = response\<lparr>database_name := Some (set_or_not (getenv ''DATABASE_NAME''))\<rparr>
      in response)"

section \<open>Example inputs\<close>

text \<open>
  Concrete settings, providers, payloads, gateways and database handles, on which the
  properties below are run.
\<close>

definition cfg_on :: config where
  "cfg_on = \<lparr>TWILIO_WHATSAPP_ENABLED = True,
             TWILIO_ACCOUNT_SID = Some (lit ''AC1''),
             TWILIO_AUTH_TOKEN = Some (lit ''secret''),
             TWILIO_WHATSAPP_FROM = Some (lit ''whatsapp:+14155238886''),
             OWNER_WHATSAPP_TO = Some (lit ''whatsapp:+919782017257'')\<rparr>"

definition cfg_off :: config where
  "cfg_off = cfg_on\<lparr>TWILIO_WHATSAPP_ENABLED := False\<rparr>"

definition cfg_no_token :: config where
  "cfg_no_token = cfg_on\<lparr>TWILIO_AUTH_TOKEN := Some []\<rparr>"

definition provider :: "int \<Rightarrow> http_client" where
  "provider status req = Inr status"

definition unreachable_provider :: http_client where
  "unreachable_provider req = Inl (OtherException (lit ''connection refused''))"

definition ana :: json_object where
  "ana = [''name'' \<mapsto> JStr (lit ''Ana''), ''phone'' \<mapsto> JStr (lit ''555-1''),
          ''message'' \<mapsto> JStr (lit ''Hi'')]"

definition ana_in :: ContactIn where
  "ana_in = \<lparr>ContactIn.name = lit ''Ana'', ContactIn.phone = lit ''555-1'',
             ContactIn.email = None, ContactIn.message = lit ''Hi''\<rparr>"

definition ana_msg :: ContactMessage where
  "ana_msg = \<lparr>ContactMessage.name = lit ''Ana'', ContactMessage.phone = lit ''555-1'',
              ContactMessage.email = None, ContactMessage.message = lit ''Hi''\<rparr>"

definition store_ok :: gateway where
  "store_ok collection msg = Inr (lit ''665f1c'')"

definition store_down :: gateway where
  "store_down collection msg = Inl (OtherException (replicate 200 120))"

definition long_in :: ContactIn where
  "long_in = \<lparr>ContactIn.name = lit ''Ana'', ContactIn.phone = lit ''555-1'',
              ContactIn.email = Some (lit ''ana@example.org''),
              ContactIn.message = replicate 600 120\<rparr>"

definition long_msg :: ContactMessage where
  "long_msg = \<lparr>ContactMessage.name = lit ''Ana'', ContactMessage.phone = lit ''555-1'',
               ContactMessage.email = Some (lit ''ana@example.org''),
               ContactMessage.message = replicate 600 120\<rparr>"

definition blank :: json_object where
  "blank = [''name'' \<mapsto> JStr [], ''phone'' \<mapsto> JStr [], ''message'' \<mapsto> JStr (lit ''Hi'')]"

definition blank_in :: ContactIn where
  "blank_in = \<lparr>ContactIn.name = [], ContactIn.phone = [],
               ContactIn.email = None, ContactIn.message = lit ''Hi''\<rparr>"

definition db_ok :: db_handle where
  "db_ok = \<lparr>name_attr = Some (lit ''appdb''),
            list_collection_names =
              Inr [lit ''a'', lit ''b'', lit ''c'', lit ''d'', lit ''e'', lit ''f'',
                   lit ''g'', lit ''h'', lit ''i'', lit ''j'', lit ''k'', lit ''l'']\<rparr>"

definition db_broken :: db_handle where
  "db_broken = \<lparr>name_attr = Some (lit ''appdb''),
                list_collection_names = Inl (OtherException (replicate 80 120))\<rparr>"

definition env_url_only :: environ where
  "env_url_only = [''DATABASE_URL'' \<mapsto> lit ''mongodb://localhost:27017'']"

section \<open>Properties of the notifier\<close>

lemma required_texts:
  "list_all truthy [a, b, c, d] \<Longrightarrow>
     \<exists>sid tok frm to. a = Some sid \<and> b = Some tok \<and> c = Some frm \<and> d = Some to \<and>
        sid \<noteq> [] \<and> tok \<noteq> [] \<and> frm \<noteq> [] \<and> to \<noteq> []"
  by (auto simp: truthy_def split: option.splits)

lemma send_whatsapp_message_configured:
  assumes "TWILIO_WHATSAPP_ENABLED cfg"
    and "TWILIO_ACCOUNT_SID cfg = Some sid" and "TWILIO_AUTH_TOKEN cfg = Some tok"
    and "TWILIO_WHATSAPP_FROM cfg = Some frm" and "OWNER_WHATSAPP_TO cfg = Some to"
    and "sid \<noteq> []" and "tok \<noteq> []" and "frm \<noteq> []" and "to \<noteq> []"
  shows "send_whatsapp_message cfg post body =
           except_return_False (post_and_check post (twilio_request sid tok frm to body))"
  using assms by (simp add: send_whatsapp_message_def truthy_def)

lemma send_whatsapp_message_skipped:
  "\<not> TWILIO_WHATSAPP_ENABLED cfg \<or>
   \<not> list_all truthy [TWILIO_ACCOUNT_SID cfg, TWILIO_AUTH_TOKEN cfg,
                       TWILIO_WHATSAPP_FROM cfg, OWNER_WHATSAPP_TO cfg] \<Longrightarrow>
   send_whatsapp_message cfg post body = (Inr False, [])"
  by (auto simp: send_whatsapp_message_def Let_def)

lemma try_post_result:
  "except_return_False (post_and_check post req) =
     (Inr (post req = Inr 200 \<or> post req = Inr 201), [req])"
  by (cases "post req") (simp_all add: except_return_False_def post_and_check_def)

lemma send_whatsapp_message_returns:
  "\<exists>b. fst (send_whatsapp_message cfg post body) = Inr b"
proof (cases "TWILIO_WHATSAPP_ENABLED cfg \<and>
    list_all truthy [TWILIO_ACCOUNT_SID cfg, TWILIO_AUTH_TOKEN cfg,
                     TWILIO_WHATSAPP_FROM cfg, OWNER_WHATSAPP_TO cfg]")
  case True
  then obtain sid tok frm to where
    "TWILIO_ACCOUNT_SID cfg = Some sid" "TWILIO_AUTH_TOKEN cfg = Some tok"
    "TWILIO_WHATSAPP_FROM cfg = Some frm" "OWNER_WHATSAPP_TO cfg = Some to"
    "sid \<noteq> []" "tok \<noteq> []" "frm \<noteq> []" "to \<noteq> []"
    using required_texts by blast
  with True show ?thesis
    by (simp add: send_whatsapp_message_configured try_post_result)
next
  case False
  then show ?thesis
    using send_whatsapp_message_skipped [of cfg post body] by auto
qed

text \<open>
  C5: the notifier never propagates an exception: whatever the settings and whatever the
  HTTP call does, \<open>send_whatsapp_message\<close> returns a boolean. When the feature flag is
  enabled and the four configuration values are present (each a non-empty text, which is
  what \<open>all(required)\<close> tests), it issues exactly one POST, the Twilio request built
  from those values, and returns \<open>True\<close> if and only if the call returns with status
  200 or 201; any other status, and any exception raised by the call, gives \<open>False\<close>.
\<close>

theorem notifier_true_iff_200_or_201:
  "(\<exists>b. fst (send_whatsapp_message cfg post body) = Inr b) \<and>
   (TWILIO_WHATSAPP_ENABLED cfg \<and>
    list_all truthy [TWILIO_ACCOUNT_SID cfg, TWILIO_AUTH_TOKEN cfg,
                     TWILIO_WHATSAPP_FROM cfg, OWNER_WHATSAPP_TO cfg] \<longrightarrow>
    (\<exists>sid tok frm to.
        TWILIO_ACCOUNT_SID cfg = Some sid \<and> TWILIO_AUTH_TOKEN cfg = Some tok \<and>
        TWILIO_WHATSAPP_FROM cfg = Some frm \<and> OWNER_WHATSAPP_TO cfg = Some to \<and>
        send_whatsapp_message cfg post body =
          (Inr (post (twilio_request sid tok frm to body) = Inr 200 \<or>
                post (twilio_request sid tok frm to body) = Inr 201),
           [twilio_request sid tok frm to body])))"
proof (intro conjI impI)
  show "\<exists>b. fst (send_whatsapp_message cfg post body) = Inr b"
    by (rule send_whatsapp_message_returns)
next
  assume "TWILIO_WHATSAPP_ENABLED cfg \<and>
    list_all truthy [TWILIO_ACCOUNT_SID cfg, TWILIO_AUTH_TOKEN cfg,
                     TWILIO_WHATSAPP_FROM cfg, OWNER_WHATSAPP_TO cfg]"
  then obtain sid tok frm to where c:
    "TWILIO_WHATSAPP_ENABLED cfg"
    "TWILIO_ACCOUNT_SID cfg = Some sid" "TWILIO_AUTH_TOKEN cfg = Some tok"
    "TWILIO_WHATSAPP_FROM cfg = Some frm" "OWNER_WHATSAPP_TO cfg = Some to"
    "sid \<noteq> []" "tok \<noteq> []" "frm \<noteq> []" "to \<noteq> []"
    using required_texts by blast
  then have "send_whatsapp_message cfg post body =
      (Inr (post (twilio_request sid tok frm to body) = Inr 200 \<or>
            post (twilio_request sid tok frm to body) = Inr 201),
       [twilio_request sid tok frm to body])"
    by (simp add: send_whatsapp_message_configured try_post_result)
  with c show "\<exists>sid tok frm to.
        TWILIO_ACCOUNT_SID cfg = Some sid \<and> TWILIO_AUTH_TOKEN cfg = Some tok \<and>
        TWILIO_WHATSAPP_FROM cfg = Some frm \<and> OWNER_WHATSAPP_TO cfg = Some to \<and>
        send_whatsapp_message cfg post body =
          (Inr (post (twilio_request sid tok frm to body) = Inr 200 \<or>
                post (twilio_request sid tok frm to body) = Inr 201),
           [twilio_request sid tok frm to body])"
    by blast
qed

lemma cfg_on_ready:
  "TWILIO_WHATSAPP_ENABLED cfg_on \<and>
   list_all truthy [TWILIO_ACCOUNT_SID cfg_on, TWILIO_AUTH_TOKEN cfg_on,
                    TWILIO_WHATSAPP_FROM cfg_on, OWNER_WHATSAPP_TO cfg_on]"
  by (simp add: cfg_on_def truthy_def lit_def)

theorem notifier_true_iff_200_or_201_witness:
  "TWILIO_WHATSAPP_ENABLED cfg_on \<and>
   list_all truthy [TWILIO_ACCOUNT_SID cfg_on, TWILIO_AUTH_TOKEN cfg_on,
                    TWILIO_WHATSAPP_FROM cfg_on, OWNER_WHATSAPP_TO cfg_on] \<and>
   fst (send_whatsapp_message cfg_on (provider 201) (lit ''hi'')) = Inr True \<and>
   fst (send_whatsapp_message cfg_on (provider 200) (lit ''hi'')) = Inr True \<and>
   fst (send_whatsapp_message cfg_on (provider 400) (lit ''hi'')) = Inr False \<and>
   fst (send_whatsapp_message cfg_on unreachable_provider (lit ''hi'')) = Inr False \<and>
   length (snd (send_whatsapp_message cfg_on unreachable_provider (lit ''hi''))) = 1"
  using cfg_on_ready
    notifier_true_iff_200_or_201 [of cfg_on "provider 201" "lit ''hi''"]
    notifier_true_iff_200_or_201 [of cfg_on "provider 200" "lit ''hi''"]
    notifier_true_iff_200_or_201 [of cfg_on "provider 400" "lit ''hi''"]
    notifier_true_iff_200_or_201 [of cfg_on unreachable_provider "lit ''hi''"]
  by (auto simp: provider_def unreachable_provider_def)

text \<open>
  C6: the notifier sends a request only when the feature flag is enabled and all four
  configuration values are present and non-empty. When the flag is disabled, or one of
  the four values is missing or empty, it returns \<open>False\<close> and no request is sent. The
  flag is tested first: with the flag disabled the result is the same whatever the four
  values are.
\<close>

theorem notifier_posts_only_when_configured:
  "(snd (send_whatsapp_message cfg post body) \<noteq> [] \<longrightarrow>
      TWILIO_WHATSAPP_ENABLED cfg \<and>
      list_all truthy [TWILIO_ACCOUNT_SID cfg, TWILIO_AUTH_TOKEN cfg,
                       TWILIO_WHATSAPP_FROM cfg, OWNER_WHATSAPP_TO cfg]) \<and>
   (\<not> TWILIO_WHATSAPP_ENABLED cfg \<or>
    \<not> list_all truthy [TWILIO_ACCOUNT_SID cfg, TWILIO_AUTH_TOKEN cfg,
                        TWILIO_WHATSAPP_FROM cfg, OWNER_WHATSAPP_TO cfg] \<longrightarrow>
      send_whatsapp_message cfg post body = (Inr False, [])) \<and>
   (\<not> TWILIO_WHATSAPP_ENABLED cfg \<longrightarrow>
      send_whatsapp_message
        (cfg\<lparr>TWILIO_ACCOUNT_SID := a, TWILIO_AUTH_TOKEN := b,
              TWILIO_WHATSAPP_FROM := c, OWNER_WHATSAPP_TO := d\<rparr>) post body = (Inr False, []))"
proof (intro conjI impI)
  assume "\<not> TWILIO_WHATSAPP_ENABLED cfg \<or>
    \<not> list_all truthy [TWILIO_ACCOUNT_SID cfg, TWILIO_AUTH_TOKEN cfg,
                        TWILIO_WHATSAPP_FROM cfg, OWNER_WHATSAPP_TO cfg]"
  then show "send_whatsapp_message cfg post body = (Inr False, [])"
    by (rule send_whatsapp_message_skipped)
next
  assume sent: "snd (send_whatsapp_message cfg post body) \<noteq> []"
  show "TWILIO_WHATSAPP_ENABLED cfg"
  proof (rule ccontr)
    assume "\<not> TWILIO_WHATSAPP_ENABLED cfg"
    then have "send_whatsapp_message cfg post body = (Inr False, [])"
      by (simp add: send_whatsapp_message_skipped)
    with sent show False by simp
  qed
  show "list_all truthy [TWILIO_ACCOUNT_SID cfg, TWILIO_AUTH_TOKEN cfg,
                         TWILIO_WHATSAPP_FROM cfg, OWNER_WHATSAPP_TO cfg]"
  proof (rule ccontr)
    assume "\<not> list_all truthy [TWILIO_ACCOUNT_SID cfg, TWILIO_AUTH_TOKEN cfg,
                         TWILIO_WHATSAPP_FROM cfg, OWNER_WHATSAPP_TO cfg]"
    then have "send_whatsapp_message cfg post body = (Inr False, [])"
      using send_whatsapp_message_skipped [of cfg post body] by blast
    with sent show False by simp
  qed
next
  assume "\<not> TWILIO_WHATSAPP_ENABLED cfg"
  then show "send_whatsapp_message
        (cfg\<lparr>TWILIO_ACCOUNT_SID := a, TWILIO_AUTH_TOKEN := b,
              TWILIO_WHATSAPP_FROM := c, OWNER_WHATSAPP_TO := d\<rparr>) post body = (Inr False, [])"
    by (simp add: send_whatsapp_message_skipped)
qed

theorem notifier_posts_only_when_configured_witness:
  "\<not> TWILIO_WHATSAPP_ENABLED cfg_off \<and>
   send_whatsapp_message cfg_off (provider 201) (lit ''hi'') = (Inr False, []) \<and>
   TWILIO_WHATSAPP_ENABLED cfg_no_token \<and>
   \<not> list_all truthy [TWILIO_ACCOUNT_SID cfg_no_token, TWILIO_AUTH_TOKEN cfg_no_token,
                       TWILIO_WHATSAPP_FROM cfg_no_token, OWNER_WHATSAPP_TO cfg_no_token] \<and>
   send_whatsapp_message cfg_no_token (provider 201) (lit ''hi'') = (Inr False, []) \<and>
   send_whatsapp_message
     (cfg_off\<lparr>TWILIO_ACCOUNT_SID := None, TWILIO_AUTH_TOKEN := None,
               TWILIO_WHATSAPP_FROM := None, OWNER_WHATSAPP_TO := None\<rparr>)
     (provider 201) (lit ''hi'') = (Inr False, [])"
  using
    notifier_posts_only_when_configured [of cfg_off "provider 201" "lit ''hi''" None None None None]
    notifier_posts_only_when_configured [of cfg_no_token "provider 201" "lit ''hi''"]
  by (simp add: cfg_off_def cfg_no_token_def cfg_on_def truthy_def)

lemma ana_valid: "ContactIn_validate ana = Some ana_in"
  by (simp add: ana_def ana_in_def ContactIn_validate_def required_str_def optional_str_def)

lemma ana_constructed: "ContactMessage_of ana_in = Inr ana_msg"
  by (simp add: ContactMessage_of_def ana_in_def ana_msg_def lit_def)

lemma create_contact_stored:
  assumes "ContactMessage_new payload = Inr msg"
    and "create_document (lit ''contactmessage'') msg = Inr doc_id"
  shows "create_contact ContactMessage_new create_document cfg post payload =
           (Inr \<lparr>ok = True, id_field = doc_id\<rparr>,
            [Construct payload, CreateDocument (lit ''contactmessage'') msg,
             SendWhatsapp (notification_body msg)] @
            map HttpPost (snd (send_whatsapp_message cfg post (notification_body msg))))"
proof -
  obtain b where "fst (send_whatsapp_message cfg post (notification_body msg)) = Inr b"
    using send_whatsapp_message_returns by blast
  then obtain sent where "send_whatsapp_message cfg post (notification_body msg) = (Inr b, sent)"
    by (cases "send_whatsapp_message cfg post (notification_body msg)") simp
  with assms show ?thesis
    by (simp add: create_contact_def)
qed

lemma create_contact_storage_error:
  assumes "ContactMessage_new payload = Inr msg"
    and "create_document (lit ''contactmessage'') msg = Inl e"
  shows "create_contact ContactMessage_new create_document cfg post payload =
           (Inl (HTTPException 500 (lit ''Database error: '' @ take 120 (str_of e))),
            [Construct payload, CreateDocument (lit ''contactmessage'') msg])"
  using assms by (simp add: create_contact_def)

lemma create_contact_schema_error:
  assumes "ContactMessage_new payload = Inl e"
  shows "create_contact ContactMessage_new create_document cfg post payload =
           (Inl (Uncaught e), [Construct payload])"
  using assms by (simp add: create_contact_def)

section \<open>Properties of the contact endpoint\<close>

text \<open>
  C1: for a payload that passes validation, when the schema object is constructed and
  the persistence gateway returns an identifier, the endpoint answers with
  \<open>{ok: true, id: <that identifier>}\<close>. The settings of the notifier and the behaviour
  of the HTTP call, which decide whether the notifier returns \<open>True\<close> or \<open>False\<close>,
  do not appear in the response: any two of them give the same response.
\<close>

theorem contact_response_ignores_notifier:
  assumes "ContactIn_validate obj = Some payload"
    and "ContactMessage_new payload = Inr msg"
    and "create_document (lit ''contactmessage'') msg = Inr doc_id"
  shows "fst (post_api_contact ContactMessage_new create_document cfg post obj) =
           Success \<lparr>ok = True, id_field = doc_id\<rparr> \<and>
         fst (post_api_contact ContactMessage_new create_document cfg' post' obj) =
           fst (post_api_contact ContactMessage_new create_document cfg post obj)"
  using assms by (simp add: post_api_contact_def create_contact_stored)

theorem contact_response_ignores_notifier_witness:
  "ContactIn_validate ana = Some ana_in \<and> ContactMessage_of ana_in = Inr ana_msg \<and>
   store_ok (lit ''contactmessage'') ana_msg = Inr (lit ''665f1c'') \<and>
   fst (send_whatsapp_message cfg_on (provider 201) (notification_body ana_msg)) = Inr True \<and>
   fst (send_whatsapp_message cfg_on (provider 400) (notification_body ana_msg)) = Inr False \<and>
   fst (post_api_contact ContactMessage_of store_ok cfg_on (provider 201) ana) =
     Success \<lparr>ok = True, id_field = lit ''665f1c''\<rparr> \<and>
   fst (post_api_contact ContactMessage_of store_ok cfg_on (provider 400) ana) =
     fst (post_api_contact ContactMessage_of store_ok cfg_on (provider 201) ana)"
  using ana_valid ana_constructed
    contact_response_ignores_notifier [of ana ana_in ContactMessage_of ana_msg store_ok
      "lit ''665f1c''" cfg_on "provider 201" cfg_on "provider 400"]
    send_whatsapp_message_configured [of cfg_on "lit ''AC1''" "lit ''secret''"
      "lit ''whatsapp:+14155238886''" "lit ''whatsapp:+919782017257''"]
  by (simp add: store_ok_def cfg_on_def try_post_result provider_def lit_def)

lemma required_str_absent: "obj k = None \<Longrightarrow> required_str obj k = None"
  by (simp add: required_str_def)

lemma ContactIn_validate_absent:
  "obj ''name'' = None \<or> obj ''phone'' = None \<or> obj ''message'' = None \<Longrightarrow>
   ContactIn_validate obj = None"
  by (auto simp: ContactIn_validate_def required_str_absent split: option.splits)

text \<open>
  C2: a payload in which \<open>name\<close>, \<open>phone\<close> or \<open>message\<close> is absent is rejected
  with the client error 422, and nothing has happened by then: no schema object was
  constructed, the persistence gateway was not called, the notifier was not called.
\<close>

theorem missing_field_rejected_before_persistence:
  assumes "obj ''name'' = None \<or> obj ''phone'' = None \<or> obj ''message'' = None"
  shows "post_api_contact ContactMessage_new create_document cfg post obj = (ValidationRejected, []) \<and>
         status_code (fst (post_api_contact ContactMessage_new create_document cfg post obj)) = 422"
  using assms by (simp add: post_api_contact_def ContactIn_validate_absent)

theorem missing_field_rejected_before_persistence_witness:
  "(ana(''phone'' := None)) ''phone'' = None \<and>
   post_api_contact ContactMessage_of store_ok cfg_on (provider 201) (ana(''phone'' := None)) =
     (ValidationRejected, [])"
  using missing_field_rejected_before_persistence
    [of "ana(''phone'' := None)" ContactMessage_of store_ok cfg_on "provider 201"]
  by simp

lemma required_str_Some: "required_str obj k = Some s \<longleftrightarrow> obj k = Some (JStr s)"
  by (simp add: required_str_def split: option.splits json.splits)

lemma ContactIn_validate_Some:
  assumes "ContactIn_validate obj = Some payload"
  shows "obj ''name'' = Some (JStr (ContactIn.name payload)) \<and>
         obj ''phone'' = Some (JStr (ContactIn.phone payload)) \<and>
         obj ''message'' = Some (JStr (ContactIn.message payload))"
proof -
  from assms obtain n p e m where
    "required_str obj ''name'' = Some n" "required_str obj ''phone'' = Some p"
    "required_str obj ''message'' = Some m"
    "payload = \<lparr>ContactIn.name = n, ContactIn.phone = p, ContactIn.email = e, ContactIn.message = m\<rparr>"
    by (auto simp: ContactIn_validate_def split: option.splits)
  then show ?thesis
    by (simp add: required_str_Some)
qed

lemma post_api_contact_stored:
  assumes "ContactIn_validate obj = Some payload"
    and "ContactMessage_new payload = Inr msg"
    and "create_document (lit ''contactmessage'') msg = Inr doc_id"
  shows "post_api_contact ContactMessage_new create_document cfg post obj =
           (Success \<lparr>ok = True, id_field = doc_id\<rparr>,
            [Construct payload, CreateDocument (lit ''contactmessage'') msg,
             SendWhatsapp (notification_body msg)] @
            map HttpPost (snd (send_whatsapp_message cfg post (notification_body msg))))"
  using assms by (simp add: post_api_contact_def create_contact_stored)

lemma post_api_contact_storage_error:
  assumes "ContactIn_validate obj = Some payload"
    and "ContactMessage_new payload = Inr msg"
    and "create_document (lit ''contactmessage'') msg = Inl e"
  shows "post_api_contact ContactMessage_new create_document cfg post obj =
           (Failed 500 (lit ''Database error: '' @ take 120 (str_of e)),
            [Construct payload, CreateDocument (lit ''contactmessage'') msg])"
  using assms by (simp add: post_api_contact_def create_contact_storage_error)

lemma post_api_contact_schema_error:
  assumes "ContactIn_validate obj = Some payload"
    and "ContactMessage_new payload = Inl e"
  shows "post_api_contact ContactMessage_new create_document cfg post obj =
           (InternalServerError, [Construct payload])"
  using assms by (simp add: post_api_contact_def create_contact_schema_error)

lemma post_api_contact_rejected:
  assumes "ContactIn_validate obj = None"
  shows "post_api_contact ContactMessage_new create_document cfg post obj = (ValidationRejected, [])"
  using assms by (simp add: post_api_contact_def)

text \<open>
  C3: when the persistence gateway raises, the endpoint answers with status 500 and the
  detail \<open>Database error: \<close> followed by the first 120 characters of the exception's
  text, and its effects end with the call of the gateway: no notifier call, no HTTP
  request. In every run, a notifier call or an HTTP request occurs only after a call of
  the gateway that returned an identifier.
\<close>

theorem storage_failure_is_500_without_notification:
  "(ContactIn_validate obj = Some payload \<and> ContactMessage_new payload = Inr msg \<and>
    create_document (lit ''contactmessage'') msg = Inl e \<longrightarrow>
      post_api_contact ContactMessage_new create_document cfg post obj =
        (Failed 500 (lit ''Database error: '' @ take 120 (str_of e)),
         [Construct payload, CreateDocument (lit ''contactmessage'') msg]) \<and>
      length (take 120 (str_of e)) \<le> 120) \<and>
   (SendWhatsapp body \<in> set (snd (post_api_contact ContactMessage_new create_document cfg post obj)) \<or>
    HttpPost req \<in> set (snd (post_api_contact ContactMessage_new create_document cfg post obj)) \<longrightarrow>
      (\<exists>p m i rest.
          ContactIn_validate obj = Some p \<and> ContactMessage_new p = Inr m \<and>
          create_document (lit ''contactmessage'') m = Inr i \<and>
          snd (post_api_contact ContactMessage_new create_document cfg post obj) =
            [Construct p, CreateDocument (lit ''contactmessage'') m, SendWhatsapp (notification_body m)] @
            map HttpPost rest))"
proof (intro conjI impI)
  assume "ContactIn_validate obj = Some payload \<and> ContactMessage_new payload = Inr msg \<and>
    create_document (lit ''contactmessage'') msg = Inl e"
  then show "post_api_contact ContactMessage_new create_document cfg post obj =
        (Failed 500 (lit ''Database error: '' @ take 120 (str_of e)),
         [Construct payload, CreateDocument (lit ''contactmessage'') msg])"
    by (simp add: post_api_contact_storage_error)
next
  show "length (take 120 (str_of e)) \<le> 120"
    by simp
next
  let ?run = "post_api_contact ContactMessage_new create_document cfg post obj"
  assume notified: "SendWhatsapp body \<in> set (snd ?run) \<or> HttpPost req \<in> set (snd ?run)"
  show "\<exists>p m i rest.
          ContactIn_validate obj = Some p \<and> ContactMessage_new p = Inr m \<and>
          create_document (lit ''contactmessage'') m = Inr i \<and>
          snd ?run =
            [Construct p, CreateDocument (lit ''contactmessage'') m, SendWhatsapp (notification_body m)] @
            map HttpPost rest"
  proof (cases "ContactIn_validate obj")
    case None
    with notified show ?thesis
      by (simp add: post_api_contact_rejected)
  next
    case (Some p)
    show ?thesis
    proof (cases "ContactMessage_new p")
      case (Inl x)
      with Some notified show ?thesis
        by (simp add: post_api_contact_schema_error)
    next
      case (Inr m)
      show ?thesis
      proof (cases "create_document (lit ''contactmessage'') m")
        case (Inl x)
        with Some Inr notified show ?thesis
          by (simp add: post_api_contact_storage_error)
      next
        case stored: (Inr i)
        with Some Inr have "snd ?run =
            [Construct p, CreateDocument (lit ''contactmessage'') m, SendWhatsapp (notification_body m)] @
            map HttpPost (snd (send_whatsapp_message cfg post (notification_body m)))"
          by (simp add: post_api_contact_stored)
        with Some Inr stored show ?thesis
          by blast
      qed
    qed
  qed
qed

lemma ana_store_down: "store_down (lit ''contactmessage'') ana_msg = Inl (OtherException (replicate 200 120))"
  by (simp add: store_down_def)

theorem storage_failure_is_500_without_notification_witness:
  "ContactIn_validate ana = Some ana_in \<and> ContactMessage_of ana_in = Inr ana_msg \<and>
   store_down (lit ''contactmessage'') ana_msg = Inl (OtherException (replicate 200 120)) \<and>
   post_api_contact ContactMessage_of store_down cfg_on (provider 201) ana =
     (Failed 500 (lit ''Database error: '' @ replicate 120 120),
      [Construct ana_in, CreateDocument (lit ''contactmessage'') ana_msg])"
  using ana_valid ana_constructed ana_store_down
    storage_failure_is_500_without_notification
      [of ana ana_in ContactMessage_of ana_msg store_down "OtherException (replicate 200 120)"
          cfg_on "provider 201"]
  by simp

lemma notification_body_email:
  "(if truthy v then (case v of Some e \<Rightarrow> e | None \<Rightarrow> lit ''-'') else lit ''-'') =
   (case v of None \<Rightarrow> lit ''-'' | Some e \<Rightarrow> if e = [] then lit ''-'' else e)"
  by (simp add: truthy_def split: option.splits)

text \<open>
  C4: when the gateway has stored the record, the handler notifies with a body made of
  the name, the phone, the email (a dash \<open>-\<close> when the email is absent, and also when
  it is the empty text) and the first 500 characters of the message. The record handed to
  the gateway is the constructed object itself, with its whole message, which differs
  from the truncated one as soon as it has more than 500 characters.
\<close>

theorem notification_truncates_record_does_not:
  assumes "ContactMessage_new payload = Inr msg"
    and "create_document (lit ''contactmessage'') msg = Inr doc_id"
  shows "\<exists>body.
           body =
             lit ''New Contact Message'' @ [10] @
             lit ''Name: '' @ ContactMessage.name msg @ [10] @
             lit ''Phone: '' @ ContactMessage.phone msg @ [10] @
             lit ''Email: '' @
               (case ContactMessage.email msg of
                  None \<Rightarrow> lit ''-''
                | Some e \<Rightarrow> if e = [] then lit ''-'' else e) @ [10] @
             lit ''Message: '' @ take 500 (ContactMessage.message msg) \<and>
           snd (create_contact ContactMessage_new create_document cfg post payload) =
             [Construct payload, CreateDocument (lit ''contactmessage'') msg, SendWhatsapp body] @
             map HttpPost (snd (send_whatsapp_message cfg post body)) \<and>
           length (take 500 (ContactMessage.message msg)) \<le> 500 \<and>
           (500 < length (ContactMessage.message msg) \<longrightarrow>
              take 500 (ContactMessage.message msg) \<noteq> ContactMessage.message msg)"
proof -
  have "snd (create_contact ContactMessage_new create_document cfg post payload) =
          [Construct payload, CreateDocument (lit ''contactmessage'') msg,
           SendWhatsapp (notification_body msg)] @
          map HttpPost (snd (send_whatsapp_message cfg post (notification_body msg)))"
    using assms by (simp add: create_contact_stored)
  moreover have "notification_body msg =
             lit ''New Contact Message'' @ [10] @
             lit ''Name: '' @ ContactMessage.name msg @ [10] @
             lit ''Phone: '' @ ContactMessage.phone msg @ [10] @
             lit ''Email: '' @
               (case ContactMessage.email msg of
                  None \<Rightarrow> lit ''-''
                | Some e \<Rightarrow> if e = [] then lit ''-'' else e) @ [10] @
             lit ''Message: '' @ take 500 (ContactMessage.message msg)"
    unfolding notification_body_def notification_body_email ..
  moreover have "500 < length (ContactMessage.message msg) \<longrightarrow>
      take 500 (ContactMessage.message msg) \<noteq> ContactMessage.message msg"
  proof
    assume "500 < length (ContactMessage.message msg)"
    then have "length (take 500 (ContactMessage.message msg)) \<noteq> length (ContactMessage.message msg)"
      by simp
    then show "take 500 (ContactMessage.message msg) \<noteq> ContactMessage.message msg"
      by metis
  qed
  ultimately show ?thesis
    by simp
qed

lemma long_constructed: "ContactMessage_of long_in = Inr long_msg"
  by (simp add: ContactMessage_of_def long_in_def long_msg_def lit_def)

lemma long_stored: "store_ok (lit ''contactmessage'') long_msg = Inr (lit ''665f1c'')"
  by (simp add: store_ok_def)

lemma long_msg_fields:
  "ContactMessage.name long_msg = lit ''Ana''"
  "ContactMessage.phone long_msg = lit ''555-1''"
  "ContactMessage.email long_msg = Some (lit ''ana@example.org'')"
  "ContactMessage.message long_msg = replicate 600 120"
  by (simp_all add: long_msg_def)

theorem notification_truncates_record_does_not_witness:
  "ContactMessage_of long_in = Inr long_msg \<and>
   store_ok (lit ''contactmessage'') long_msg = Inr (lit ''665f1c'') \<and>
   length (ContactMessage.message long_msg) = 600 \<and>
   take 3 (snd (create_contact ContactMessage_of store_ok cfg_off (provider 201) long_in)) =
     [Construct long_in, CreateDocument (lit ''contactmessage'') long_msg,
      SendWhatsapp (lit ''New Contact Message'' @ [10] @ lit ''Name: Ana'' @ [10] @
                    lit ''Phone: 555-1'' @ [10] @ lit ''Email: ana@example.org'' @ [10] @
                    lit ''Message: '' @ replicate 500 120)]"
  using long_constructed long_stored
    notification_truncates_record_does_not
      [of ContactMessage_of long_in long_msg store_ok "lit ''665f1c''" cfg_off "provider 201"]
  by (simp add: long_msg_fields lit_def)

lemma persisted_record_from_schema:
  assumes "CreateDocument collection m \<in>
             set (snd (post_api_contact ContactMessage_new create_document cfg post obj))"
  shows "\<exists>payload. ContactIn_validate obj = Some payload \<and> ContactMessage_new payload = Inr m"
proof (cases "ContactIn_validate obj")
  case None
  with assms show ?thesis
    by (simp add: post_api_contact_rejected)
next
  case (Some p)
  show ?thesis
  proof (cases "ContactMessage_new p")
    case (Inl x)
    with Some assms show ?thesis
      by (simp add: post_api_contact_schema_error)
  next
    case (Inr m')
    have "m = m'"
    proof (cases "create_document (lit ''contactmessage'') m'")
      case (Inl x)
      with Some Inr assms show ?thesis
        by (simp add: post_api_contact_storage_error)
    next
      case stored: (Inr i)
      with Some Inr assms show ?thesis
        by (auto simp add: post_api_contact_stored)
    qed
    with Some Inr show ?thesis
      by simp
  qed
qed

lemma ContactMessage_of_Inr:
  assumes "ContactMessage_of p = Inr m"
  shows "ContactIn.name p \<noteq> [] \<and> ContactIn.phone p \<noteq> [] \<and>
         ContactMessage.name m = ContactIn.name p \<and> ContactMessage.phone m = ContactIn.phone p"
  using assms by (auto simp: ContactMessage_of_def split: if_splits)

lemma ContactMessage_of_empty:
  "ContactIn.name p = [] \<or> ContactIn.phone p = [] \<Longrightarrow>
   ContactMessage_of p = Inl (OtherException (lit ''ValidationError''))"
  by (simp add: ContactMessage_of_def)

lemma blank_valid: "ContactIn_validate blank = Some blank_in"
  by (simp add: blank_def blank_in_def ContactIn_validate_def required_str_def optional_str_def)

lemma ana_persisted:
  "CreateDocument (lit ''contactmessage'') ana_msg \<in>
     set (snd (post_api_contact ContactMessage_of store_ok cfg_on (provider 201) ana))"
proof -
  have "store_ok (lit ''contactmessage'') ana_msg = Inr (lit ''665f1c'')"
    by (simp add: store_ok_def)
  with ana_valid ana_constructed show ?thesis
    by (simp add: post_api_contact_stored
          [where ContactMessage_new = ContactMessage_of and create_document = store_ok])
qed

text \<open>
  C7: with the schema of the spec's data model, every record that the contact endpoint
  hands to the persistence gateway has a non-empty name and a non-empty phone, the texts
  of the payload. The declaration of \<open>ContactIn\<close> lets an empty text through, so a
  payload whose name or phone is the empty text reaches the handler; there the schema
  raises before the gateway is called. Such a payload is never answered with success and
  nothing of it is stored.
\<close>

theorem persisted_name_and_phone_nonempty:
  "(CreateDocument collection m \<in>
      set (snd (post_api_contact ContactMessage_of create_document cfg post obj)) \<longrightarrow>
      ContactMessage.name m \<noteq> [] \<and> ContactMessage.phone m \<noteq> [] \<and>
      obj ''name'' = Some (JStr (ContactMessage.name m)) \<and>
      obj ''phone'' = Some (JStr (ContactMessage.phone m))) \<and>
   (obj ''name'' = Some (JStr []) \<or> obj ''phone'' = Some (JStr []) \<longrightarrow>
      (fst (post_api_contact ContactMessage_of create_document cfg post obj) = ValidationRejected \<or>
       fst (post_api_contact ContactMessage_of create_document cfg post obj) = InternalServerError) \<and>
      (\<forall>c r. CreateDocument c r \<notin>
         set (snd (post_api_contact ContactMessage_of create_document cfg post obj))))"
proof (intro conjI impI)
  let ?run = "post_api_contact ContactMessage_of create_document cfg post obj"
  have stored: "ContactMessage.name r \<noteq> [] \<and> ContactMessage.phone r \<noteq> [] \<and>
      obj ''name'' = Some (JStr (ContactMessage.name r)) \<and>
      obj ''phone'' = Some (JStr (ContactMessage.phone r))"
    if "CreateDocument c r \<in> set (snd ?run)" for c r
  proof -
    from that obtain p where p: "ContactIn_validate obj = Some p" "ContactMessage_of p = Inr r"
      using persisted_record_from_schema by blast
    from ContactIn_validate_Some [OF p(1)] ContactMessage_of_Inr [OF p(2)] show ?thesis
      by simp
  qed
  {
    assume "CreateDocument collection m \<in> set (snd ?run)"
    then show "ContactMessage.name m \<noteq> []" and "ContactMessage.phone m \<noteq> []"
      and "obj ''name'' = Some (JStr (ContactMessage.name m))"
      and "obj ''phone'' = Some (JStr (ContactMessage.phone m))"
      using stored by blast+
  }
  assume empty: "obj ''name'' = Some (JStr []) \<or> obj ''phone'' = Some (JStr [])"
  show "fst ?run = ValidationRejected \<or> fst ?run = InternalServerError"
  proof (cases "ContactIn_validate obj")
    case None
    then show ?thesis
      by (simp add: post_api_contact_rejected)
  next
    case (Some p)
    with empty have "ContactIn.name p = [] \<or> ContactIn.phone p = []"
      using ContactIn_validate_Some [OF Some] by auto
    then have "ContactMessage_of p = Inl (OtherException (lit ''ValidationError''))"
      by (rule ContactMessage_of_empty)
    with Some show ?thesis
      by (simp add: post_api_contact_schema_error)
  qed
  show "\<forall>c r. CreateDocument c r \<notin> set (snd ?run)"
  proof (intro allI notI)
    fix c r
    assume "CreateDocument c r \<in> set (snd ?run)"
    then have "ContactMessage.name r \<noteq> []" "ContactMessage.phone r \<noteq> []"
      "obj ''name'' = Some (JStr (ContactMessage.name r))"
      "obj ''phone'' = Some (JStr (ContactMessage.phone r))"
      using stored by blast+
    with empty show False
      by auto
  qed
qed

theorem persisted_name_and_phone_nonempty_witness:
  "CreateDocument (lit ''contactmessage'') ana_msg \<in>
     set (snd (post_api_contact ContactMessage_of store_ok cfg_on (provider 201) ana)) \<and>
   ContactMessage.name ana_msg \<noteq> [] \<and> ContactMessage.phone ana_msg \<noteq> [] \<and>
   blank ''name'' = Some (JStr []) \<and>
   post_api_contact ContactMessage_of store_ok cfg_on (provider 201) blank =
     (InternalServerError, [Construct blank_in]) \<and>
   CreateDocument (lit ''contactmessage'') ana_msg \<notin>
     set (snd (post_api_contact ContactMessage_of store_ok cfg_on (provider 201) blank))"
proof -
  have empty: "blank ''name'' = Some (JStr [])"
    by (simp add: blank_def)
  have raised: "ContactMessage_of blank_in = Inl (OtherException (lit ''ValidationError''))"
    by (rule ContactMessage_of_empty) (simp add: blank_in_def)
  have run: "post_api_contact ContactMessage_of store_ok cfg_on (provider 201) blank =
      (InternalServerError, [Construct blank_in])"
    by (rule post_api_contact_schema_error
          [where ContactMessage_new = ContactMessage_of, OF blank_valid raised])
  from persisted_name_and_phone_nonempty
        [of "lit ''contactmessage''" ana_msg store_ok cfg_on "provider 201" ana]
      ana_persisted
  have "ContactMessage.name ana_msg \<noteq> [] \<and> ContactMessage.phone ana_msg \<noteq> []"
    by blast
  moreover from persisted_name_and_phone_nonempty
        [of "lit ''contactmessage''" ana_msg store_ok cfg_on "provider 201" blank]
      empty
  have "CreateDocument (lit ''contactmessage'') ana_msg \<notin>
     set (snd (post_api_contact ContactMessage_of store_ok cfg_on (provider 201) blank))"
    by blast
  ultimately show ?thesis
    using empty run ana_persisted by blast
qed

lemma test_database_probe:
  "test_database imp getenv =
     (probe_database imp
        \<lparr>backend = check_mark @ lit '' Running'',
         database = cross_mark @ lit '' Not Available'',
         database_url = None, database_name = None,
         connection_status = lit ''Not Connected'', collections = []\<rparr>)
     \<lparr>database_url := Some (set_or_not (getenv ''DATABASE_URL'')),
      database_name := Some (set_or_not (getenv ''DATABASE_NAME''))\<rparr>"
  by (simp add: test_database_def Let_def)

lemma probe_database_import_raises:
  "probe_database (Inl e) r =
     (if is_ImportError e
      then r\<lparr>database := cross_mark @ lit '' Database module not found (run enable-database first)''\<rparr>
      else r\<lparr>database := cross_mark @ lit '' Error: '' @ take 50 (str_of e)\<rparr>)"
  by (simp add: probe_database_def import_and_probe_def)

lemma probe_database_None:
  "probe_database (Inr None) r =
     r\<lparr>database := warning_sign @ lit ''  Available but not initialized''\<rparr>"
  by (simp add: probe_database_def import_and_probe_def)

lemma probe_database_handle:
  "probe_database (Inr (Some db)) r =
     check_connectivity db
       (r\<lparr>database := check_mark @ lit '' Available'',
          database_url := Some (check_mark @ lit '' Configured''),
          database_name := Some (case name_attr db of
                                   Some n \<Rightarrow> n
                                 | None \<Rightarrow> check_mark @ lit '' Connected''),
          connection_status := lit ''Connected''\<rparr>)"
  by (simp add: probe_database_def import_and_probe_def)

lemma check_connectivity_listed:
  "list_collection_names db = Inr colls \<Longrightarrow>
   check_connectivity db r =
     r\<lparr>collections := take 10 colls, database := check_mark @ lit '' Connected & Working''\<rparr>"
  by (simp add: check_connectivity_def enumerate_collections_def)

lemma check_connectivity_raises:
  "list_collection_names db = Inl e \<Longrightarrow>
   check_connectivity db r =
     r\<lparr>database := warning_sign @ lit ''  Connected but Error: '' @ take 50 (str_of e)\<rparr>"
  by (simp add: check_connectivity_def enumerate_collections_def)

section \<open>Properties of the diagnostics endpoint\<close>

text \<open>
  C8: \<open>test_database\<close> returns the status document whatever the database sub-checks
  do; both \<open>try\<close> blocks catch every exception. The document always reports the backend
  as running and both configuration flags, and its \<open>database\<close> field describes the
  outcome: the module not found when the import raises \<open>ImportError\<close>, the first 50
  characters of the error text when the import raises anything else, not initialized when
  the handle is \<open>None\<close>, connected with the first 50 characters of the error text when
  the enumeration of the collections raises, and connected and working otherwise.
\<close>

theorem test_database_describes_every_failure:
  "backend (test_database imp getenv) = check_mark @ lit '' Running'' \<and>
   database_url (test_database imp getenv) \<noteq> None \<and>
   database_name (test_database imp getenv) \<noteq> None \<and>
   (imp = Inl e \<and> is_ImportError e \<longrightarrow>
      database (test_database imp getenv) =
        cross_mark @ lit '' Database module not found (run enable-database first)'') \<and>
   (imp = Inl e \<and> \<not> is_ImportError e \<longrightarrow>
      database (test_database imp getenv) = cross_mark @ lit '' Error: '' @ take 50 (str_of e)) \<and>
   (imp = Inr None \<longrightarrow>
      database (test_database imp getenv) = warning_sign @ lit ''  Available but not initialized'') \<and>
   (imp = Inr (Some db) \<and> list_collection_names db = Inl e \<longrightarrow>
      database (test_database imp getenv) =
        warning_sign @ lit ''  Connected but Error: '' @ take 50 (str_of e)) \<and>
   (imp = Inr (Some db) \<and> list_collection_names db = Inr colls \<longrightarrow>
      database (test_database imp getenv) = check_mark @ lit '' Connected & Working'') \<and>
   length (take 50 (str_of e)) \<le> 50"
proof (intro conjI impI)
  show "backend (test_database imp getenv) = check_mark @ lit '' Running''"
  proof (cases imp)
    case (Inl x)
    then show ?thesis
      by (simp add: test_database_probe probe_database_import_raises)
  next
    case (Inr h)
    show ?thesis
    proof (cases h)
      case None
      with Inr show ?thesis
        by (simp add: test_database_probe probe_database_None)
    next
      case (Some d)
      with Inr show ?thesis
        by (cases "list_collection_names d")
          (simp_all add: test_database_probe probe_database_handle
            check_connectivity_listed check_connectivity_raises)
    qed
  qed
next
  show "database_url (test_database imp getenv) \<noteq> None"
    by (simp add: test_database_probe)
next
  show "database_name (test_database imp getenv) \<noteq> None"
    by (simp add: test_database_probe)
next
  assume "imp = Inl e \<and> is_ImportError e"
  then show "database (test_database imp getenv) =
      cross_mark @ lit '' Database module not found (run enable-database first)''"
    by (simp add: test_database_probe probe_database_import_raises)
next
  assume "imp = Inl e \<and> \<not> is_ImportError e"
  then show "database (test_database imp getenv) = cross_mark @ lit '' Error: '' @ take 50 (str_of e)"
    by (simp add: test_database_probe probe_database_import_raises)
next
  assume "imp = Inr None"
  then show "database (test_database imp getenv) =
      warning_sign @ lit ''  Available but not initialized''"
    by (simp add: test_database_probe probe_database_None)
next
  assume "imp = Inr (Some db) \<and> list_collection_names db = Inl e"
  then show "database (test_database imp getenv) =
      warning_sign @ lit ''  Connected but Error: '' @ take 50 (str_of e)"
    by (simp add: test_database_probe probe_database_handle check_connectivity_raises)
next
  assume "imp = Inr (Some db) \<and> list_collection_names db = Inr colls"
  then show "database (test_database imp getenv) = check_mark @ lit '' Connected & Working''"
    by (simp add: test_database_probe probe_database_handle check_connectivity_listed)
next
  show "length (take 50 (str_of e)) \<le> 50"
    by simp
qed

lemma db_broken_raises: "list_collection_names db_broken = Inl (OtherException (replicate 80 120))"
  by (simp add: db_broken_def)

theorem test_database_describes_every_failure_witness:
  "list_collection_names db_broken = Inl (OtherException (replicate 80 120)) \<and>
   database (test_database (Inr (Some db_broken)) env_url_only) =
     warning_sign @ lit ''  Connected but Error: '' @ replicate 50 120 \<and>
   database (test_database (Inl (OtherException (replicate 80 120))) env_url_only) =
     cross_mark @ lit '' Error: '' @ replicate 50 120 \<and>
   database (test_database (Inl (ImportError (lit ''No module named database''))) env_url_only) =
     cross_mark @ lit '' Database module not found (run enable-database first)'' \<and>
   database (test_database (Inr None) env_url_only) =
     warning_sign @ lit ''  Available but not initialized''"
  using db_broken_raises
    test_database_describes_every_failure
      [of "Inr (Some db_broken)" env_url_only "OtherException (replicate 80 120)" db_broken]
    test_database_describes_every_failure
      [of "Inl (OtherException (replicate 80 120))" env_url_only "OtherException (replicate 80 120)"]
    test_database_describes_every_failure
      [of "Inl (ImportError (lit ''No module named database''))" env_url_only
          "ImportError (lit ''No module named database'')"]
    test_database_describes_every_failure [of "Inr None" env_url_only]
  by simp

text \<open>
  C9: the fields \<open>database_url\<close> and \<open>database_name\<close> of the status document are
  decided by the environment variables \<open>DATABASE_URL\<close> and \<open>DATABASE_NAME\<close> alone
  (set when the variable has a non-empty value, not set otherwise): what the import of
  the database gives, the state of the handle and the outcome of the enumeration do not
  change them.
\<close>

theorem config_flags_depend_on_environment_only:
  "database_url (test_database imp getenv) =
     Some (if truthy (getenv ''DATABASE_URL'') then check_mark @ lit '' Set''
           else cross_mark @ lit '' Not Set'') \<and>
   database_name (test_database imp getenv) =
     Some (if truthy (getenv ''DATABASE_NAME'') then check_mark @ lit '' Set''
           else cross_mark @ lit '' Not Set'') \<and>
   database_url (test_database imp' getenv) = database_url (test_database imp getenv) \<and>
   database_name (test_database imp' getenv) = database_name (test_database imp getenv)"
  by (simp add: test_database_probe set_or_not_def)

theorem config_flags_depend_on_environment_only_witness:
  "database_url (test_database (Inr (Some db_ok)) env_url_only) = Some (check_mark @ lit '' Set'') \<and>
   database_name (test_database (Inr (Some db_ok)) env_url_only) = Some (cross_mark @ lit '' Not Set'') \<and>
   database_url (test_database (Inr None) env_url_only) =
     database_url (test_database (Inr (Some db_ok)) env_url_only)"
  using config_flags_depend_on_environment_only [of "Inr (Some db_ok)" env_url_only "Inr None"]
  by (simp add: env_url_only_def truthy_def lit_def)

text \<open>
  C10: when the import gives a handle that is not \<open>None\<close>, \<open>connection_status\<close> is
  \<open>Connected\<close>, also when the enumeration of the collections raises, and
  \<open>collections\<close> has at most 10 entries: the first 10 names when the enumeration
  succeeds, none when it raises.
\<close>

theorem handle_means_connected_and_at_most_ten:
  assumes "imp = Inr (Some db)"
  shows "connection_status (test_database imp getenv) = lit ''Connected'' \<and>
         length (collections (test_database imp getenv)) \<le> 10 \<and>
         collections (test_database imp getenv) =
           (case list_collection_names db of Inr colls \<Rightarrow> take 10 colls | Inl e \<Rightarrow> [])"
  using assms
  by (cases "list_collection_names db")
    (simp_all add: test_database_probe probe_database_handle
      check_connectivity_listed check_connectivity_raises)

theorem handle_means_connected_and_at_most_ten_witness:
  "connection_status (test_database (Inr (Some db_broken)) env_url_only) = lit ''Connected'' \<and>
   collections (test_database (Inr (Some db_broken)) env_url_only) = [] \<and>
   connection_status (test_database (Inr (Some db_ok)) env_url_only) = lit ''Connected'' \<and>
   collections (test_database (Inr (Some db_ok)) env_url_only) =
     [lit ''a'', lit ''b'', lit ''c'', lit ''d'', lit ''e'', lit ''f'',
      lit ''g'', lit ''h'', lit ''i'', lit ''j'']"
  using handle_means_connected_and_at_most_ten [of "Inr (Some db_broken)" db_broken env_url_only]
    handle_means_connected_and_at_most_ten [of "Inr (Some db_ok)" db_ok env_url_only]
  by (simp add: db_broken_def db_ok_def)

end
